theory Spec2Isabelle
  imports Complex_Main
begin

section \<open>The patient-similarity page (pages/similarity.py)\<close>

text \<open>
  The page keeps five process-wide variables (\<open>client\<close>, \<open>task\<close>, \<open>start\<close>,
  \<open>centroids\<close>, \<open>profiles\<close>), loads the TNM staging scheme from \<open>input/cdm.json\<close>
  when the module is imported, and registers three callbacks. Two of them are embedded
  here: \<open>get_similarity_analysis_results\<close> and \<open>survival_profile\<close>.

  Conventions of the embedding.
  \<^item> Python's \<open>None\<close> is \<open>None\<close> of an option type; a list of numbers is a \<open>real list\<close>.
    A double is read as the real number it denotes. The distance function of scipy is
    a parameter of the matching step (\<open>closest_cluster_by\<close>); the callback is stated
    with its reading in exact arithmetic (\<open>euclidean\<close>), and a reading that rounds every
    operation to binary64 (\<open>euclidean_binary64\<close>) is given beside it. NaN is outside
    the model.
  \<^item> A raised exception is \<open>Inl\<close> of its class. A callback returns the pair of its
    outcome and the global state it leaves behind, because an assignment made
    before an exception is raised stays in effect.
  \<^item> The staging scheme is not part of the source tree; it is the parameter \<open>cdm\<close>.
  \<^item> The remote service is reached through the \<open>client\<close> object, modelled by the
    replies its two calls give.
\<close>

subsection \<open>Exceptions\<close>

text \<open>
  The first seven constructors are the exception classes the embedded code can raise
  (\<open>RemoteError\<close> stands for whatever the vantage6 client raises). The last five are
  the error names of the specification's taxonomy; no statement of the source
  constructs them, they are here so that statements about them can be written.
\<close>

datatype error =
    AttributeError | TypeError | KeyError | IndexError | ValueError
  | UnboundLocalError | RemoteError
  | SubmissionError | NotReadyError | MissingResultError
  | InvalidStageError | NoResultsAvailableError

subsection \<open>Global variables (lines 30-34)\<close>

record task_info =
  complete :: "bool option"  \<comment> \<open>\<open>task_info.get('complete')\<close>; \<open>None\<close> when the key is absent\<close>
  info_id :: "nat option"    \<comment> \<open>\<open>task_info['id']\<close>; \<open>None\<close> when the key is absent\<close>

record result_payload =
  rp_centroids :: "real list list option"  \<comment> \<open>key \<open>'centroids'\<close>; \<open>None\<close> when absent\<close>
  rp_profiles :: "real list list option"   \<comment> \<open>key \<open>'profiles'\<close>; \<open>None\<close> when absent\<close>

record result_entry =
  result :: "result_payload option"  \<comment> \<open>key \<open>'result'\<close>; \<open>None\<close> when absent\<close>
  finished_at :: "string option"     \<comment> \<open>key \<open>'finished_at'\<close>; \<open>None\<close> when absent\<close>

text \<open>\<open>result_info['data']\<close>: \<open>None\<close> when the key is absent, else the list of entries.\<close>

type_synonym result_info = "result_entry list option"

record client =
  task_get :: "nat \<Rightarrow> error + task_info"       \<comment> \<open>\<open>client.task.get(id, include_results=True)\<close>\<close>
  result_list :: "nat \<Rightarrow> error + result_info"  \<comment> \<open>\<open>client.result.list(task=id)\<close>\<close>

text \<open>
  \<open>task\<close> is the dictionary \<open>client.task.create\<close> returned, reduced to its \<open>'id'\<close>
  entry (\<open>None\<close> inside: the dictionary has no such key).
\<close>

record state =
  client :: "client option"
  task :: "nat option option"
  start :: "real option"
  centroids :: "real list list option"
  profiles :: "real list list option"

definition initial_state :: state where
  "initial_state =
     \<lparr>client = None, task = None, start = None, centroids = None, profiles = None\<rparr>"

subsection \<open>TNM common data model (lines 40-51)\<close>

record cdm =
  t_values :: "string list"
  n_values :: "string list"
  m_values :: "string list"

text \<open>\<open>list(range(len(values)))\<close>\<close>

definition nvalues :: "string list \<Rightarrow> nat list" where
  "nvalues vals = [0..<length vals]"

definition t_nvalues :: "cdm \<Rightarrow> nat list" where
  "t_nvalues c = nvalues (t_values c)"

definition n_nvalues :: "cdm \<Rightarrow> nat list" where
  "n_nvalues c = nvalues (n_values c)"

definition m_nvalues :: "cdm \<Rightarrow> nat list" where
  "m_nvalues c = nvalues (m_values c)"

subsection \<open>What the page shows\<close>

text \<open>
  The component trees the callbacks return, without their styling. \<open>Graph\<close> holds the
  rows of the data frame the line chart is drawn from, as (survival days, survival rate);
  \<open>CompletedText d\<close> is the \<open>Plaintext\<close> of \<open>f'Analysis completed in {d} minutes'\<close>.
\<close>

datatype component =
    Plaintext string
  | CompletedText real
  | H4 string
  | Graph "(nat \<times> real) list"
  | Div "component list"

subsection \<open>Library operations the callbacks use\<close>

text \<open>Truthiness of a dropdown value (\<open>None\<close> or a string) and of a list or \<open>None\<close>.\<close>

definition truthy_str :: "string option \<Rightarrow> bool" where
  "truthy_str v = (case v of None \<Rightarrow> False | Some s \<Rightarrow> s \<noteq> [])"

definition truthy_list :: "'a list option \<Rightarrow> bool" where
  "truthy_list v = (case v of None \<Rightarrow> False | Some xs \<Rightarrow> xs \<noteq> [])"

text \<open>
  numpy stores the strings of an array at one width, padded with NUL characters, and
  compares them up to that padding: two strings are equal for \<open>==\<close> when they are equal
  once their trailing NUL characters are dropped.
\<close>

definition rstrip_nul :: "string \<Rightarrow> string" where
  "rstrip_nul s = rev (dropWhile (\<lambda>ch. ch = CHR 0x00) (rev s))"

text \<open>\<open>np.where(np.array(vals) == x)[0]\<close>: the positions that compare equal to \<open>x\<close>, ascending.\<close>

definition np_where_eq :: "string list \<Rightarrow> string \<Rightarrow> nat list" where
  "np_where_eq vals x =
     filter (\<lambda>i. rstrip_nul (vals ! i) = rstrip_nul x) [0..<length vals]"

text \<open>\<open>a[0]\<close> and \<open>a[i]\<close> for a non-negative \<open>i\<close>: out of range raises \<open>IndexError\<close>.\<close>

definition first_item :: "'a list \<Rightarrow> error + 'a" where
  "first_item xs = (case xs of [] \<Rightarrow> Inl IndexError | x # _ \<Rightarrow> Inr x)"

definition list_get :: "'a list \<Rightarrow> nat \<Rightarrow> error + 'a" where
  "list_get xs i = (if i < length xs then Inr (xs ! i) else Inl IndexError)"

text \<open>
  \<open>scipy.spatial.distance.euclidean(u, v)\<close> is the 2-norm of \<open>u - v\<close>. The
  subtraction follows numpy's broadcasting of one-dimensional arrays: equal lengths,
  or one operand of length 1 which is then repeated; anything else raises \<open>ValueError\<close>.
  \<open>euclidean\<close> is this function in exact arithmetic: the number that the double returned
  by scipy approximates.
\<close>

definition broadcast_sub :: "real list \<Rightarrow> real list \<Rightarrow> error + real list" where
  "broadcast_sub u v =
     (if length u = length v then Inr (map2 (\<lambda>a b. a - b) u v)
      else if length v = 1 then Inr (map (\<lambda>a. a - v ! 0) u)
      else if length u = 1 then Inr (map (\<lambda>b. u ! 0 - b) v)
      else Inl ValueError)"

definition norm2 :: "real list \<Rightarrow> real" where
  "norm2 d = sqrt (sum_list (map (\<lambda>x. x\<^sup>2) d))"

definition euclidean :: "real list \<Rightarrow> real list \<Rightarrow> error + real" where
  "euclidean u v = (case broadcast_sub u v of Inl e \<Rightarrow> Inl e | Inr d \<Rightarrow> Inr (norm2 d))"

text \<open>
  The same function in double precision. \<open>binary64 x\<close> is the double nearest to \<open>x\<close>,
  ties going to the even significand: \<open>x\<close> is rounded to a multiple of the spacing
  \<open>2 ^ (e - 52)\<close> of the doubles of its binade \<open>2 ^ e \<le> |x| < 2 ^ (e + 1)\<close>, the exponent
  not going below that of the subnormal numbers (overflow to infinity is left out).
  \<open>euclidean_binary64\<close> rounds the subtraction, each square, each addition and the
  square root. The BLAS routine behind scipy's norm may order or scale the sum in another
  way; the distances used below are the same in each of them.
\<close>

definition pow2 :: "int \<Rightarrow> real" where
  "pow2 e = (if 0 \<le> e then 2 ^ nat e else 1 / 2 ^ nat (- e))"

definition round_half_even :: "real \<Rightarrow> int" where
  "round_half_even x =
     (let f = \<lfloor>x\<rfloor>; r = x - of_int f
      in if r < 1 / 2 then f else if 1 / 2 < r then f + 1 else if even f then f else f + 1)"

definition binary64 :: "real \<Rightarrow> real" where
  "binary64 x =
     (if x = 0 then 0
      else let e = max \<lfloor>log 2 \<bar>x\<bar>\<rfloor> (- 1022); u = pow2 (e - 52)
           in of_int (round_half_even (x / u)) * u)"

definition norm2_binary64 :: "real list \<Rightarrow> real" where
  "norm2_binary64 d =
     binary64 (sqrt (foldl (\<lambda>s x. binary64 (s + binary64 (x * x))) 0 d))"

definition euclidean_binary64 :: "real list \<Rightarrow> real list \<Rightarrow> error + real" where
  "euclidean_binary64 u v =
     (case broadcast_sub u v of
        Inl e \<Rightarrow> Inl e
      | Inr d \<Rightarrow> Inr (norm2_binary64 (map binary64 d)))"

text \<open>
  \<open>np.argmin\<close> of a list: \<open>ValueError\<close> on the empty list, else one pass that keeps
  the position of the smallest value seen so far and replaces it only by a strictly
  smaller one. The values are of any linearly ordered type, so the doubles with the
  infinities are covered; NaN is not.
\<close>

fun argmin_scan :: "'d::linorder list \<Rightarrow> nat \<Rightarrow> nat \<Rightarrow> 'd \<Rightarrow> nat" where
  "argmin_scan [] i best bv = best"
| "argmin_scan (x # xs) i best bv =
     (if x < bv then argmin_scan xs (Suc i) i x else argmin_scan xs (Suc i) best bv)"

definition argmin :: "'d::linorder list \<Rightarrow> error + nat" where
  "argmin ds = (case ds of [] \<Rightarrow> Inl ValueError | x # xs \<Rightarrow> Inr (argmin_scan xs 1 0 x))"

text \<open>\<open>list(range(lo, hi, step))\<close> for a positive step.\<close>

definition range_list :: "nat \<Rightarrow> nat \<Rightarrow> nat \<Rightarrow> nat list" where
  "range_list lo hi step =
     map (\<lambda>i. lo + step * i) [0..<(hi - lo + step - 1) div step]"

text \<open>
  \<open>pd.DataFrame({'survival rate': rate, 'survival days': days})\<close>: columns of
  different lengths raise \<open>ValueError\<close>; the frame is kept as its rows (days, rate).
\<close>

definition data_frame :: "real list \<Rightarrow> nat list \<Rightarrow> error + (nat \<times> real) list" where
  "data_frame rate days =
     (if length rate = length days then Inr (zip days rate) else Inl ValueError)"

subsection \<open>The callback \<open>survival_profile\<close> (lines 213-251)\<close>

text \<open>
  Lines 216-217 (and 219-220, 222-223): the position of the label in the axis's value
  list, then the entry of the numeric list at that position.
\<close>

definition encode_stage :: "string list \<Rightarrow> nat list \<Rightarrow> string \<Rightarrow> error + nat" where
  "encode_stage vals nvals x =
     (case first_item (np_where_eq vals x) of
        Inl e \<Rightarrow> Inl e
      | Inr idx \<Rightarrow> list_get nvals idx)"

text \<open>
  Line 227: the list comprehension over the centroids, in order. \<open>distfn\<close> is
  \<open>distance.euclidean\<close>, whatever it returns or raises for the query and a centroid.
\<close>

fun distances_by :: "('q \<Rightarrow> 'c \<Rightarrow> error + 'd) \<Rightarrow> 'q \<Rightarrow> 'c list \<Rightarrow> error + 'd list" where
  "distances_by distfn xi [] = Inr []"
| "distances_by distfn xi (xj # rest) =
     (case distfn xi xj of
        Inl e \<Rightarrow> Inl e
      | Inr d \<Rightarrow>
          (case distances_by distfn xi rest of Inl e \<Rightarrow> Inl e | Inr ds \<Rightarrow> Inr (d # ds)))"

text \<open>Lines 227-228: iterating \<open>None\<close> raises \<open>TypeError\<close>.\<close>

definition closest_cluster_by ::
  "('q \<Rightarrow> 'c \<Rightarrow> error + 'd::linorder) \<Rightarrow> 'q \<Rightarrow> 'c list option \<Rightarrow> error + nat" where
  "closest_cluster_by distfn xi cents =
     (case cents of
        None \<Rightarrow> Inl TypeError
      | Some cs \<Rightarrow> (case distances_by distfn xi cs of Inl e \<Rightarrow> Inl e | Inr ds \<Rightarrow> argmin ds))"

text \<open>The two lines with the distance in exact arithmetic, as the callback below uses them.\<close>

definition distances :: "real list \<Rightarrow> real list list \<Rightarrow> error + real list" where
  "distances xi cs = distances_by euclidean xi cs"

definition closest_cluster :: "real list \<Rightarrow> real list list option \<Rightarrow> error + nat" where
  "closest_cluster xi cents = closest_cluster_by euclidean xi cents"

text \<open>Lines 231-234: subscripting \<open>None\<close> raises \<open>TypeError\<close>.\<close>

definition profile_frame :: "real list list option \<Rightarrow> nat \<Rightarrow> error + (nat \<times> real) list" where
  "profile_frame profs idx =
     (case profs of
        None \<Rightarrow> Inl TypeError
      | Some ps \<Rightarrow>
          (case list_get ps idx of
             Inl e \<Rightarrow> Inl e
           | Inr rate \<Rightarrow> data_frame rate (range_list 0 730 30)))"

definition survival_profile ::
  "cdm \<Rightarrow> state \<Rightarrow> string option \<Rightarrow> string option \<Rightarrow> string option
     \<Rightarrow> (error + component) \<times> state" where
  "survival_profile c st t n m =
     (if truthy_str t \<and> truthy_str n \<and> truthy_str m then
        (case encode_stage (t_values c) (t_nvalues c) (the t) of
           Inl e \<Rightarrow> (Inl e, st)
         | Inr tn \<Rightarrow>
        (case encode_stage (n_values c) (n_nvalues c) (the n) of
           Inl e \<Rightarrow> (Inl e, st)
         | Inr nn \<Rightarrow>
        (case encode_stage (m_values c) (m_nvalues c) (the m) of
           Inl e \<Rightarrow> (Inl e, st)
         | Inr mn \<Rightarrow>
        (case closest_cluster [real tn, real nn, real mn] (centroids st) of
           Inl e \<Rightarrow> (Inl e, st)
         | Inr idx \<Rightarrow>
        (case profile_frame (profiles st) idx of
           Inl e \<Rightarrow> (Inl e, st)
         | Inr dfp \<Rightarrow>
             (Inr (Div [H4 ''Survival profile for similar patients:'', Graph dfp]), st))))))
      else (Inr (Plaintext ''''), st))"

subsection \<open>The callback \<open>get_similarity_analysis_results\<close> (lines 177-204)\<close>

text \<open>
  \<open>round(x, 3)\<close>: the value of the double is rounded to three decimals, a tie going
  to the even last digit. (Python returns the double nearest to this number, and the
  quotient it is applied to is itself a rounded double.)
\<close>

definition round3 :: "real \<Rightarrow> real" where
  "round3 x = real_of_int (round_half_even (x * 1000)) / 1000"

text \<open>\<open>result_info['data'][0]\<close>\<close>

definition first_entry :: "result_info \<Rightarrow> error + result_entry" where
  "first_entry ri = (case ri of None \<Rightarrow> Inl KeyError | Some entries \<Rightarrow> first_item entries)"

text \<open>
  Lines 188-192, the body of \<open>if task_info.get('complete')\<close>. The two globals are
  assigned one after the other, so a failure after line 189 leaves \<open>centroids\<close>
  already replaced. \<open>parse\<close> is \<open>parser.parse(end).timestamp()\<close> of dateutil. The
  value returned is the local variable \<open>duration\<close>.
\<close>

definition fetch_results ::
  "(string \<Rightarrow> error + real) \<Rightarrow> client \<Rightarrow> task_info \<Rightarrow> state \<Rightarrow> (error + real) \<times> state" where
  "fetch_results parse cl ti st =
     (case info_id ti of
        None \<Rightarrow> (Inl KeyError, st)
      | Some rid \<Rightarrow>
     (case result_list cl rid of
        Inl e \<Rightarrow> (Inl e, st)
      | Inr ri \<Rightarrow>
     (case first_entry ri of
        Inl e \<Rightarrow> (Inl e, st)
      | Inr en \<Rightarrow>
     (case result en of
        None \<Rightarrow> (Inl KeyError, st)
      | Some rp \<Rightarrow>
     (case rp_centroids rp of
        None \<Rightarrow> (Inl KeyError, st)
      | Some cs \<Rightarrow>
     (case rp_profiles rp of
        None \<Rightarrow> (Inl KeyError, st\<lparr>centroids := Some cs\<rparr>)
      | Some ps \<Rightarrow>
     (case finished_at en of
        None \<Rightarrow> (Inl KeyError, st\<lparr>centroids := Some cs, profiles := Some ps\<rparr>)
      | Some fin \<Rightarrow>
     (case parse fin of
        Inl e \<Rightarrow> (Inl e, st\<lparr>centroids := Some cs, profiles := Some ps\<rparr>)
      | Inr ts \<Rightarrow>
     (case start st of
        None \<Rightarrow> (Inl TypeError, st\<lparr>centroids := Some cs, profiles := Some ps\<rparr>)
      | Some s \<Rightarrow>
          (Inr (round3 ((ts - s) / 60)),
           st\<lparr>centroids := Some cs, profiles := Some ps\<rparr>))))))))))"

text \<open>
  Lines 195-202. \<open>dur\<close> is the local variable \<open>duration\<close>, \<open>None\<close> while it has not
  been assigned: reading it then raises \<open>UnboundLocalError\<close>.
\<close>

definition results_output :: "state \<Rightarrow> real option \<Rightarrow> (error + component) \<times> state" where
  "results_output st dur =
     (if truthy_list (centroids st) \<and> truthy_list (profiles st) then
        (case dur of
           None \<Rightarrow> (Inl UnboundLocalError, st)
         | Some d \<Rightarrow> (Inr (Div [CompletedText d]), st))
      else (Inr (Div [Plaintext ''Still waiting for results, try again...'']), st))"

definition get_similarity_analysis_results ::
  "(string \<Rightarrow> error + real) \<Rightarrow> state \<Rightarrow> int \<Rightarrow> (error + component) \<times> state" where
  "get_similarity_analysis_results parse st n_clicks =
     (if n_clicks > 0 then
        (case client st of
           None \<Rightarrow> (Inl AttributeError, st)
         | Some cl \<Rightarrow>
        (case task st of
           None \<Rightarrow> (Inl TypeError, st)
         | Some tk \<Rightarrow>
        (case tk of
           None \<Rightarrow> (Inl KeyError, st)
         | Some tid \<Rightarrow>
        (case task_get cl tid of
           Inl e \<Rightarrow> (Inl e, st)
         | Inr ti \<Rightarrow>
             if complete ti = Some True then
               (case fetch_results parse cl ti st of
                  (Inl e, st') \<Rightarrow> (Inl e, st')
                | (Inr d, st') \<Rightarrow> results_output st' (Some d))
             else results_output st None))))
      else (Inr (Plaintext ''''), st))"

subsection \<open>Definitions used to state the properties\<close>

text \<open>
  The Euclidean distance of two points of the three-dimensional TNM space, written out
  coordinate by coordinate. It is the yardstick the distances computed by the callback
  are compared with.
\<close>

definition euclid3 :: "real list \<Rightarrow> real list \<Rightarrow> real" where
  "euclid3 a b = sqrt ((a ! 0 - b ! 0)\<^sup>2 + (a ! 1 - b ! 1)\<^sup>2 + (a ! 2 - b ! 2)\<^sup>2)"

text \<open>
  Modelled from the spec: the lookup from an ordinal index back to its label. The
  source never decodes (the specification calls this direction unused at runtime), so
  the definition follows the specification's data model, where the ordinal value of a
  label is its position in the axis's value list: decoding is subscripting that list.
\<close>

definition decode_stage :: "string list \<Rightarrow> nat \<Rightarrow> error + string" where
  "decode_stage vals i = list_get vals i"

text \<open>The staging scheme and the results of the specification's two-cluster scenario.\<close>

definition scenario_cdm :: cdm where
  "scenario_cdm =
     \<lparr>t_values = [''T1'', ''T2''], n_values = [''N0'', ''N1''], m_values = [''M0'', ''M1'']\<rparr>"

definition scenario_state :: "real list \<Rightarrow> real list \<Rightarrow> state" where
  "scenario_state p0 p1 =
     initial_state\<lparr>centroids := Some [[0, 0, 0], [1, 1, 1]], profiles := Some [p0, p1]\<rparr>"

text \<open>A scheme whose T axis holds two labels that differ only in a trailing NUL.\<close>

definition nul_cdm :: cdm where
  "nul_cdm =
     \<lparr>t_values = [[CHR ''T'', CHR ''1'', CHR 0x00], ''T1''], n_values = [''N0''],
      m_values = [''M0'']\<rparr>"

text \<open>A client whose task is still running, and a state that has submitted it.\<close>

definition pending_client :: client where
  "pending_client =
     \<lparr>task_get = (\<lambda>i. Inr \<lparr>complete = Some False, info_id = Some i\<rparr>),
      result_list = (\<lambda>i. Inl RemoteError)\<rparr>"

definition submitted_state :: state where
  "submitted_state =
     initial_state\<lparr>client := Some pending_client, task := Some (Some 7), start := Some 0\<rparr>"

section \<open>Properties\<close>

subsection \<open>The minimum scan\<close>

text \<open>
  The invariant of the scan: \<open>best\<close> is the first position of the smallest value among
  the values already passed.
\<close>

lemma argmin_scan_spec:
  assumes "ds = pre @ xs" "i = length pre" "b < i" "bv = ds ! b"
    "\<forall>j<i. bv \<le> ds ! j" "\<forall>j<b. bv < ds ! j"
  shows "argmin_scan xs i b bv < length ds \<and>
         (\<forall>j<length ds. ds ! argmin_scan xs i b bv \<le> ds ! j) \<and>
         (\<forall>j<argmin_scan xs i b bv. ds ! argmin_scan xs i b bv < ds ! j)"
  using assms
proof (induction xs arbitrary: pre i b bv)
  case Nil
  then show ?case by simp
next
  case (Cons x xs)
  have dsi: "ds ! i = x" using Cons.prems by (simp add: nth_append)
  have eq: "ds = (pre @ [x]) @ xs" "Suc i = length (pre @ [x])" using Cons.prems by simp_all
  show ?case
  proof (cases "x < bv")
    case True
    have a: "\<forall>j<Suc i. x \<le> ds ! j" using Cons.prems(5) True dsi by (auto simp: less_Suc_eq)
    have b: "\<forall>j<i. x < ds ! j" using Cons.prems(5) True by fastforce
    from Cons.IH[OF eq(1) eq(2), of i x] dsi a b True show ?thesis by simp
  next
    case False
    have a: "\<forall>j<Suc i. bv \<le> ds ! j" using Cons.prems(5) False dsi by (auto simp: less_Suc_eq)
    from Cons.IH[OF eq(1) eq(2), of b bv] Cons.prems a False show ?thesis by simp
  qed
qed

lemma argmin_spec:
  assumes "ds \<noteq> []"
  shows "\<exists>i. argmin ds = Inr i \<and> i < length ds \<and> (\<forall>j<length ds. ds ! i \<le> ds ! j) \<and>
         (\<forall>j<i. ds ! i < ds ! j)"
proof -
  obtain x xs where ds: "ds = x # xs" using assms by (cases ds) auto
  have "argmin_scan xs 1 0 x < length ds \<and>
         (\<forall>j<length ds. ds ! argmin_scan xs 1 0 x \<le> ds ! j) \<and>
         (\<forall>j<argmin_scan xs 1 0 x. ds ! argmin_scan xs 1 0 x < ds ! j)"
    by (rule argmin_scan_spec[where pre="[x]"]) (simp_all add: ds)
  then show ?thesis by (simp add: argmin_def ds)
qed

subsection \<open>The matching step\<close>

lemma distances_by_map:
  assumes "\<forall>c\<in>set cs. distfn xi c = Inr (d c)"
  shows "distances_by distfn xi cs = Inr (map d cs)"
  using assms by (induction cs) simp_all

text \<open>
  C1, as the code has it. Let \<open>distance.euclidean\<close> return a value \<open>d c\<close> for every
  centroid \<open>c\<close> of a non-empty set. Then line 227 collects these values in order, and
  line 228 returns a position where the returned value is smallest, the lowest one among
  the positions holding that value. The statement is about the values the function
  returns, which are rounded doubles, for any such function.
\<close>

theorem closest_cluster_by_lowest_minimum:
  assumes "cs \<noteq> []" "\<forall>c\<in>set cs. distfn xi c = Inr (d c)"
  shows "distances_by distfn xi cs = Inr (map d cs) \<and>
     (\<exists>i. closest_cluster_by distfn xi (Some cs) = Inr i \<and> i < length cs \<and>
        (\<forall>j<length cs. d (cs ! i) \<le> d (cs ! j)) \<and>
        (\<forall>j<length cs. d (cs ! j) = d (cs ! i) \<longrightarrow> i \<le> j))"
proof -
  let ?ds = "map d cs"
  have ds: "distances_by distfn xi cs = Inr ?ds" by (rule distances_by_map[where distfn=distfn and xi=xi and d=d, OF assms(2)])
  have "?ds \<noteq> []" using assms(1) by simp
  from argmin_spec[OF this] obtain i where i: "argmin ?ds = Inr i" "i < length ?ds"
    "\<forall>j<length ?ds. ?ds ! i \<le> ?ds ! j" "\<forall>j<i. ?ds ! i < ?ds ! j" by blast
  have il: "i < length cs" using i(2) by simp
  have m: "\<forall>j<length cs. d (cs ! i) \<le> d (cs ! j)"
    using i(3) il by simp
  have t: "\<forall>j<length cs. d (cs ! j) = d (cs ! i) \<longrightarrow> i \<le> j"
  proof (intro allI impI)
    fix j assume j: "j < length cs" "d (cs ! j) = d (cs ! i)"
    show "i \<le> j"
    proof (rule ccontr)
      assume "\<not> i \<le> j"
      then have "j < i" by simp
      with i(4) have "?ds ! i < ?ds ! j" by blast
      then show False using j il by simp
    qed
  qed
  have "closest_cluster_by distfn xi (Some cs) = Inr i"
    by (simp add: closest_cluster_by_def ds i(1))
  with il ds m t show ?thesis by blast
qed

lemma euclidean_euclid3:
  assumes "length u = 3" "length v = 3"
  shows "euclidean u v = Inr (euclid3 u v)"
proof -
  obtain a b c where u: "u = [a, b, c]" using assms(1)
    by (metis length_0_conv length_Suc_conv numeral_3_eq_3)
  obtain d e f where v: "v = [d, e, f]" using assms(2)
    by (metis length_0_conv length_Suc_conv numeral_3_eq_3)
  show ?thesis by (simp add: u v euclidean_def broadcast_sub_def norm2_def euclid3_def)
qed

theorem closest_cluster_by_lowest_minimum_witness:
  "closest_cluster_by euclidean [1, 0, 0] (Some [[1, 1, 1], [0, 0, 0], [2, 0, 0]]) = Inr 1 \<and>
   distances_by euclidean [1, 0, 0] [[1, 1, 1], [0, 0, 0], [2, 0, 0]] = Inr [sqrt 2, 1, 1]"
proof -
  let ?cs = "[[1, 1, 1], [0, 0, 0], [2, 0, 0]] :: real list list"
  let ?xi = "[1, 0, 0] :: real list"
  have h1: "?cs \<noteq> []" by simp
  have h2: "\<forall>c\<in>set ?cs. euclidean ?xi c = Inr (euclid3 ?xi c)"
    by (simp add: euclidean_euclid3)
  from closest_cluster_by_lowest_minimum
         [where distfn=euclidean and xi="?xi" and d="euclid3 ?xi", OF h1 h2]
  obtain i where
    i: "closest_cluster_by euclidean ?xi (Some ?cs) = Inr i" "i < length ?cs"
       "distances_by euclidean ?xi ?cs = Inr (map (euclid3 ?xi) ?cs)"
       "\<forall>j<length ?cs. euclid3 ?xi (?cs ! i) \<le> euclid3 ?xi (?cs ! j)"
       "\<forall>j<length ?cs. euclid3 ?xi (?cs ! j) = euclid3 ?xi (?cs ! i) \<longrightarrow> i \<le> j"
    by blast
  have e: "euclid3 ?xi [1, 1, 1] = sqrt 2" "euclid3 ?xi [0, 0, 0] = 1" "euclid3 ?xi [2, 0, 0] = 1"
    by (simp_all add: euclid3_def)
  from i(2) have "i = 0 \<or> i = 1 \<or> i = 2" by auto
  moreover have "i \<noteq> 0"
  proof
    assume "i = 0"
    with i(4)[rule_format, of 1] have "euclid3 ?xi (?cs ! 0) \<le> euclid3 ?xi (?cs ! 1)"
      by simp
    then show False by (simp add: e)
  qed
  moreover have "i \<noteq> 2"
  proof
    assume i2: "i = 2"
    from i(5)[rule_format, of 1]
    have "euclid3 ?xi (?cs ! 1) = euclid3 ?xi (?cs ! i) \<Longrightarrow> i \<le> 1"
      by simp
    then show False by (simp add: i2 e)
  qed
  ultimately have "i = 1" by blast
  moreover have "map (euclid3 ?xi) ?cs = [sqrt 2, 1, 1]" using e by simp
  ultimately show ?thesis using i(1) i(3) by simp
qed

subsection \<open>Rounding to a double\<close>

lemma pow2_powr: "pow2 e = 2 powr (of_int e)"
  by (simp add: pow2_def powr_int)

lemma pow2_pos: "0 < pow2 e"
  by (simp add: pow2_def)

lemma binary64_binade:
  assumes "pow2 e \<le> \<bar>x\<bar>" "\<bar>x\<bar> < pow2 (e + 1)" "- 1022 \<le> e"
  shows "binary64 x = of_int (round_half_even (x / pow2 (e - 52))) * pow2 (e - 52)"
proof -
  have pos: "0 < \<bar>x\<bar>" using assms(1) pow2_pos[of e] by linarith
  then have nz: "x \<noteq> 0" by auto
  have "\<lfloor>log 2 \<bar>x\<bar>\<rfloor> = e"
    using assms(1,2) pos by (simp add: floor_log_eq_powr_iff pow2_powr)
  then show ?thesis using nz assms(3) by (simp add: binary64_def Let_def max_def)
qed

lemma binary64_values:
  "binary64 0 = 0"
  "binary64 1 = 1"
  "binary64 (- 1) = - 1"
  "binary64 (- (1 / 1073741824)) = - (1 / 1073741824)"
  "binary64 (1 / 1152921504606846976) = 1 / 1152921504606846976"
  "binary64 (1152921504606846977 / 1152921504606846976) = 1"
proof -
  show "binary64 0 = 0" by (simp add: binary64_def)
  show "binary64 1 = 1"
    by (subst binary64_binade[of 0]) (simp_all add: pow2_def round_half_even_def)
  show "binary64 (- 1) = - 1"
    by (subst binary64_binade[of 0]) (simp_all add: pow2_def round_half_even_def)
  show "binary64 (- (1 / 1073741824)) = - (1 / 1073741824)"
    by (subst binary64_binade[of "- 30"]) (simp_all add: pow2_def round_half_even_def)
  show "binary64 (1 / 1152921504606846976) = 1 / 1152921504606846976"
    by (subst binary64_binade[of "- 60"]) (simp_all add: pow2_def round_half_even_def)
  show "binary64 (1152921504606846977 / 1152921504606846976) = 1"
    by (subst binary64_binade[of 0]) (simp_all add: pow2_def round_half_even_def)
qed

lemma rounded_tie_distances:
  "euclidean_binary64 [0, 0, 0] [1, 1 / 1073741824, 0] = Inr 1"
  "euclidean_binary64 [0, 0, 0] [1, 0, 0] = Inr 1"
  by (simp_all add: euclidean_binary64_def broadcast_sub_def norm2_binary64_def binary64_values)

text \<open>
  C1 as stated fails. The centroid \<open>(1, 0, 0)\<close> at position 1 is strictly nearer to the
  query \<open>(0, 0, 0)\<close> than the centroid \<open>(1, 2 ^ -30, 0)\<close> at position 0, but both distances
  round to the double 1.0 and position 0 is returned.
\<close>

theorem closest_cluster_rounded_tie:
  "closest_cluster_by euclidean_binary64 [0, 0, 0] (Some [[1, 1 / 2 ^ 30, 0], [1, 0, 0]]) = Inr 0 \<and>
   euclid3 [0, 0, 0] [1, 0, 0] < euclid3 [0, 0, 0] [1, 1 / 2 ^ 30, 0]"
  by (simp add: closest_cluster_by_def rounded_tie_distances argmin_def euclid3_def)

subsection \<open>Repeated calls\<close>

text \<open>
  C8. The callback reads the globals \<open>centroids\<close> and \<open>profiles\<close> and nothing else, and
  writes none: two calls with the same inputs, made in two states that hold the same
  centroid set and the same profile set (and may differ in \<open>client\<close>, \<open>task\<close> and \<open>start\<close>),
  have the same outcome, so the same matched cluster is shown, and each leaves its state
  as it was.
\<close>

theorem survival_profile_deterministic:
  assumes "centroids st = centroids st'" "profiles st = profiles st'"
  shows "fst (survival_profile c st t n m) = fst (survival_profile c st' t n m) \<and>
         snd (survival_profile c st t n m) = st"
  using assms by (simp add: survival_profile_def split: sum.splits)

theorem survival_profile_deterministic_witness:
  "fst (survival_profile scenario_cdm (scenario_state (replicate 25 1) [])
          (Some ''T1'') (Some ''N0'') (Some ''M0''))
   = fst (survival_profile scenario_cdm
            (submitted_state\<lparr>centroids := Some [[0, 0, 0], [1, 1, 1]],
                              profiles := Some [replicate 25 1, []]\<rparr>)
            (Some ''T1'') (Some ''N0'') (Some ''M0'')) \<and>
   snd (survival_profile scenario_cdm (scenario_state (replicate 25 1) [])
          (Some ''T1'') (Some ''N0'') (Some ''M0''))
   = scenario_state (replicate 25 1) []"
proof -
  have h1: "centroids (scenario_state (replicate 25 1) [])
      = centroids (submitted_state\<lparr>centroids := Some [[0, 0, 0], [1, 1, 1]],
                                    profiles := Some [replicate 25 1, []]\<rparr>)"
    by (simp add: scenario_state_def)
  have h2: "profiles (scenario_state (replicate 25 1) [])
      = profiles (submitted_state\<lparr>centroids := Some [[0, 0, 0], [1, 1, 1]],
                                   profiles := Some [replicate 25 1, []]\<rparr>)"
    by (simp add: scenario_state_def)
  show ?thesis by (rule survival_profile_deterministic[OF h1 h2])
qed

subsection \<open>Encoding a stage label\<close>

lemma np_where_eq_mem:
  "i \<in> set (np_where_eq vals x) \<longleftrightarrow> i < length vals \<and> rstrip_nul (vals ! i) = rstrip_nul x"
  by (auto simp: np_where_eq_def)

lemma np_where_eq_empty: "np_where_eq vals x = [] \<longleftrightarrow> rstrip_nul x \<notin> rstrip_nul ` set vals"
proof
  assume e: "np_where_eq vals x = []"
  show "rstrip_nul x \<notin> rstrip_nul ` set vals"
  proof
    assume "rstrip_nul x \<in> rstrip_nul ` set vals"
    then obtain v where v: "v \<in> set vals" "rstrip_nul x = rstrip_nul v" by blast
    then obtain i where "i < length vals" "vals ! i = v" by (auto simp: in_set_conv_nth)
    with v have "i \<in> set (np_where_eq vals x)" by (simp add: np_where_eq_mem)
    with e show False by simp
  qed
next
  assume n: "rstrip_nul x \<notin> rstrip_nul ` set vals"
  show "np_where_eq vals x = []"
  proof (cases "np_where_eq vals x")
    case Nil
    then show ?thesis .
  next
    case (Cons i rest)
    then have "i \<in> set (np_where_eq vals x)" by simp
    then have "i < length vals" "rstrip_nul (vals ! i) = rstrip_nul x"
      by (simp_all add: np_where_eq_mem)
    then have "rstrip_nul x \<in> rstrip_nul ` set vals" by (metis imageI nth_mem)
    with n show ?thesis by simp
  qed
qed

lemma encode_stage_invalid:
  "rstrip_nul x \<notin> rstrip_nul ` set vals \<Longrightarrow> encode_stage vals (nvalues vals) x = Inl IndexError"
  using np_where_eq_empty[of vals x] by (simp add: encode_stage_def first_item_def)

lemma encode_stage_valid:
  assumes "rstrip_nul x \<in> rstrip_nul ` set vals"
  shows "\<exists>i. encode_stage vals (nvalues vals) x = Inr i \<and> i < length vals \<and>
             rstrip_nul (vals ! i) = rstrip_nul x"
proof -
  from assms have "np_where_eq vals x \<noteq> []" by (simp add: np_where_eq_empty)
  then obtain h rest where hr: "np_where_eq vals x = h # rest"
    by (cases "np_where_eq vals x") auto
  then have "h \<in> set (np_where_eq vals x)" by simp
  then have h: "h < length vals" "rstrip_nul (vals ! h) = rstrip_nul x"
    by (simp_all add: np_where_eq_mem)
  then show ?thesis by (simp add: encode_stage_def first_item_def hr list_get_def nvalues_def)
qed

text \<open>A label with a trailing NUL is found at the position of the label without it.\<close>

lemma encode_stage_trailing_nul:
  "encode_stage [''T1'', ''T2''] (nvalues [''T1'', ''T2'']) [CHR ''T'', CHR ''1'', CHR 0x00] = Inr 0"
  by (simp add: encode_stage_def first_item_def np_where_eq_def list_get_def nvalues_def
      rstrip_nul_def)

lemma encode_decode_axis:
  assumes "x \<in> set vals"
  shows "\<exists>i l. encode_stage vals (nvalues vals) x = Inr i \<and> decode_stage vals i = Inr l \<and>
           rstrip_nul l = rstrip_nul x \<and> (inj_on rstrip_nul (set vals) \<longrightarrow> l = x)"
proof -
  from assms have "rstrip_nul x \<in> rstrip_nul ` set vals" by simp
  from encode_stage_valid[OF this] obtain i where
    i: "encode_stage vals (nvalues vals) x = Inr i" "i < length vals"
       "rstrip_nul (vals ! i) = rstrip_nul x" by blast
  have d: "decode_stage vals i = Inr (vals ! i)" using i(2) by (simp add: decode_stage_def list_get_def)
  have "inj_on rstrip_nul (set vals) \<longrightarrow> vals ! i = x"
    using i(2,3) assms by (auto dest: inj_onD)
  with i d show ?thesis by blast
qed

text \<open>
  C2, as the code has it. A label of the T, N and M value lists is encoded to an index,
  and the index decodes to a label that equals the original once trailing NUL characters
  are dropped; it is the original itself when no two labels of the axis differ only in
  trailing NUL characters.
\<close>

theorem encode_decode_roundtrip_nul:
  assumes "t \<in> set (t_values c)" "n \<in> set (n_values c)" "m \<in> set (m_values c)"
  shows "\<exists>ti ni mi lt ln lm.
     encode_stage (t_values c) (t_nvalues c) t = Inr ti \<and> decode_stage (t_values c) ti = Inr lt \<and>
     rstrip_nul lt = rstrip_nul t \<and> (inj_on rstrip_nul (set (t_values c)) \<longrightarrow> lt = t) \<and>
     encode_stage (n_values c) (n_nvalues c) n = Inr ni \<and> decode_stage (n_values c) ni = Inr ln \<and>
     rstrip_nul ln = rstrip_nul n \<and> (inj_on rstrip_nul (set (n_values c)) \<longrightarrow> ln = n) \<and>
     encode_stage (m_values c) (m_nvalues c) m = Inr mi \<and> decode_stage (m_values c) mi = Inr lm \<and>
     rstrip_nul lm = rstrip_nul m \<and> (inj_on rstrip_nul (set (m_values c)) \<longrightarrow> lm = m)"
  using encode_decode_axis[OF assms(1)] encode_decode_axis[OF assms(2)]
    encode_decode_axis[OF assms(3)]
  unfolding t_nvalues_def n_nvalues_def m_nvalues_def by blast

lemma scenario_encode:
  "encode_stage (t_values scenario_cdm) (t_nvalues scenario_cdm) ''T1'' = Inr 0"
  "encode_stage (n_values scenario_cdm) (n_nvalues scenario_cdm) ''N0'' = Inr 0"
  "encode_stage (m_values scenario_cdm) (m_nvalues scenario_cdm) ''M0'' = Inr 0"
  "encode_stage (t_values scenario_cdm) (t_nvalues scenario_cdm) ''T2'' = Inr 1"
  "encode_stage (n_values scenario_cdm) (n_nvalues scenario_cdm) ''N1'' = Inr 1"
  "encode_stage (m_values scenario_cdm) (m_nvalues scenario_cdm) ''M1'' = Inr 1"
  by (simp_all add: scenario_cdm_def t_nvalues_def n_nvalues_def m_nvalues_def nvalues_def
      encode_stage_def first_item_def np_where_eq_def list_get_def rstrip_nul_def)

lemma scenario_inj:
  "inj_on rstrip_nul (set (t_values scenario_cdm))"
  "inj_on rstrip_nul (set (n_values scenario_cdm))"
  "inj_on rstrip_nul (set (m_values scenario_cdm))"
  by (simp_all add: scenario_cdm_def rstrip_nul_def)

theorem encode_decode_roundtrip_nul_witness:
  "encode_stage (t_values scenario_cdm) (t_nvalues scenario_cdm) ''T2'' = Inr 1 \<and>
   decode_stage (t_values scenario_cdm) 1 = Inr ''T2'' \<and>
   encode_stage (n_values scenario_cdm) (n_nvalues scenario_cdm) ''N0'' = Inr 0 \<and>
   decode_stage (n_values scenario_cdm) 0 = Inr ''N0'' \<and>
   encode_stage (m_values scenario_cdm) (m_nvalues scenario_cdm) ''M1'' = Inr 1 \<and>
   decode_stage (m_values scenario_cdm) 1 = Inr ''M1''"
proof -
  have h1: "''T2'' \<in> set (t_values scenario_cdm)" by (simp add: scenario_cdm_def)
  have h2: "''N0'' \<in> set (n_values scenario_cdm)" by (simp add: scenario_cdm_def)
  have h3: "''M1'' \<in> set (m_values scenario_cdm)" by (simp add: scenario_cdm_def)
  from encode_decode_roundtrip_nul[OF h1 h2 h3] scenario_inj obtain ti ni mi where r:
    "encode_stage (t_values scenario_cdm) (t_nvalues scenario_cdm) ''T2'' = Inr ti"
    "decode_stage (t_values scenario_cdm) ti = Inr ''T2''"
    "encode_stage (n_values scenario_cdm) (n_nvalues scenario_cdm) ''N0'' = Inr ni"
    "decode_stage (n_values scenario_cdm) ni = Inr ''N0''"
    "encode_stage (m_values scenario_cdm) (m_nvalues scenario_cdm) ''M1'' = Inr mi"
    "decode_stage (m_values scenario_cdm) mi = Inr ''M1''"
    by blast
  from r(1) r(3) r(5) have "ti = 1" "ni = 0" "mi = 1" by (simp_all add: scenario_encode)
  with r show ?thesis by simp
qed

text \<open>
  C2 as stated fails. In the scheme \<open>t = ['T1\x00', 'T1']\<close> the label \<open>'T1'\<close> is valid; it
  is encoded to 0, the position of \<open>'T1\x00'\<close>, which numpy compares equal to it, and 0
  decodes to \<open>'T1\x00'\<close>.
\<close>

theorem encode_decode_trailing_nul:
  "''T1'' \<in> set (t_values nul_cdm) \<and>
   encode_stage (t_values nul_cdm) (t_nvalues nul_cdm) ''T1'' = Inr 0 \<and>
   decode_stage (t_values nul_cdm) 0 = Inr [CHR ''T'', CHR ''1'', CHR 0x00] \<and>
   [CHR ''T'', CHR ''1'', CHR 0x00] \<noteq> ''T1''"
  by (simp add: nul_cdm_def t_nvalues_def nvalues_def encode_stage_def first_item_def
      np_where_eq_def list_get_def rstrip_nul_def decode_stage_def)

subsection \<open>The data frame of a profile\<close>

lemma range_list_days: "range_list 0 730 30 = map (\<lambda>i. 30 * i) [0..<25]"
  by (simp add: range_list_def)

lemma data_frame_days:
  "data_frame rate (range_list 0 730 30) =
     (if length rate = 25 then Inr (map (\<lambda>i. (30 * i, rate ! i)) [0..<25]) else Inl ValueError)"
proof (cases "length rate = 25")
  case True
  have "zip (map (\<lambda>i. 30 * i) [0..<25]) rate = map (\<lambda>i. (30 * i, rate ! i)) [0..<25]"
    by (rule nth_equalityI) (simp_all add: True)
  then show ?thesis by (simp add: data_frame_def range_list_days True)
next
  case False
  then show ?thesis by (simp add: data_frame_def range_list_days)
qed

text \<open>
  C3, as the code has it. The time axis is the fixed list \<open>range(0, 730, 30)\<close> of 25
  values. For a matched index inside the profile set, a profile of exactly 25 values
  gives the 25 pairs \<open>(30 * i, profile[i])\<close>; a profile of any other length gives no
  series, the data frame constructor raises \<open>ValueError\<close>.
\<close>

theorem profile_frame_fixed_grid:
  assumes "idx < length ps"
  shows "profile_frame (Some ps) idx =
     (if length (ps ! idx) = 25 then Inr (map (\<lambda>i. (30 * i, ps ! idx ! i)) [0..<25])
      else Inl ValueError)"
  using assms by (simp add: profile_frame_def list_get_def data_frame_days)

theorem profile_frame_fixed_grid_witness:
  "(0::nat) < length [replicate 25 (1::real)] \<and>
   profile_frame (Some [replicate 25 1]) 0 =
     Inr (map (\<lambda>i. (30 * i, replicate 25 (1::real) ! i)) [0..<25])"
proof -
  have h: "(0::nat) < length [replicate 25 (1::real)]" by simp
  from profile_frame_fixed_grid[OF h] h show ?thesis by simp
qed

text \<open>
  C3 as stated fails: a matched profile of one value does not give a series of one pair.
\<close>

theorem profile_frame_short_profile: "profile_frame (Some [[1]]) 0 = Inl ValueError"
  by (simp add: profile_frame_def list_get_def data_frame_def range_list_def)

subsection \<open>The three outcomes of \<open>survival_profile\<close> before the matching\<close>

lemma survival_profile_unselected:
  assumes "\<not> (truthy_str t \<and> truthy_str n \<and> truthy_str m)"
  shows "survival_profile c st t n m = (Inr (Plaintext ''''), st)"
  unfolding survival_profile_def by (rule if_not_P[OF assms])

lemma survival_profile_selected:
  assumes "t \<noteq> []" "n \<noteq> []" "m \<noteq> []"
    "encode_stage (t_values c) (t_nvalues c) t = Inr tn"
    "encode_stage (n_values c) (n_nvalues c) n = Inr nn"
    "encode_stage (m_values c) (m_nvalues c) m = Inr mn"
  shows "survival_profile c st (Some t) (Some n) (Some m) =
     (case closest_cluster [real tn, real nn, real mn] (centroids st) of
        Inl e \<Rightarrow> (Inl e, st)
      | Inr idx \<Rightarrow>
          (case profile_frame (profiles st) idx of
             Inl e \<Rightarrow> (Inl e, st)
           | Inr dfp \<Rightarrow>
               (Inr (Div [H4 ''Survival profile for similar patients:'', Graph dfp]), st)))"
  using assms by (simp add: survival_profile_def truthy_str_def)

lemma survival_profile_invalid:
  assumes "t \<noteq> []" "n \<noteq> []" "m \<noteq> []"
    "rstrip_nul t \<notin> rstrip_nul ` set (t_values c) \<or>
     rstrip_nul n \<notin> rstrip_nul ` set (n_values c) \<or>
     rstrip_nul m \<notin> rstrip_nul ` set (m_values c)"
  shows "survival_profile c st (Some t) (Some n) (Some m) = (Inl IndexError, st)"
proof -
  have sel: "truthy_str (Some t) \<and> truthy_str (Some n) \<and> truthy_str (Some m)"
    using assms(1-3) by (simp add: truthy_str_def)
  show ?thesis
  proof (cases "rstrip_nul t \<in> rstrip_nul ` set (t_values c)")
    case False
    then show ?thesis using sel
      by (simp add: survival_profile_def t_nvalues_def encode_stage_invalid)
  next
    case True
    from encode_stage_valid[OF this] obtain tn where
      tn: "encode_stage (t_values c) (t_nvalues c) t = Inr tn" by (auto simp: t_nvalues_def)
    show ?thesis
    proof (cases "rstrip_nul n \<in> rstrip_nul ` set (n_values c)")
      case False
      then show ?thesis using sel tn
        by (simp add: survival_profile_def n_nvalues_def encode_stage_invalid)
    next
      case nv: True
      from encode_stage_valid[OF this] obtain nn where
        nn: "encode_stage (n_values c) (n_nvalues c) n = Inr nn" by (auto simp: n_nvalues_def)
      from assms(4) True nv have "rstrip_nul m \<notin> rstrip_nul ` set (m_values c)" by simp
      then show ?thesis using sel tn nn
        by (simp add: survival_profile_def m_nvalues_def encode_stage_invalid)
    qed
  qed
qed

lemma survival_profile_valid_unset:
  assumes "t \<noteq> []" "n \<noteq> []" "m \<noteq> []"
    "rstrip_nul t \<in> rstrip_nul ` set (t_values c)"
    "rstrip_nul n \<in> rstrip_nul ` set (n_values c)"
    "rstrip_nul m \<in> rstrip_nul ` set (m_values c)"
    "centroids st = None"
  shows "survival_profile c st (Some t) (Some n) (Some m) = (Inl TypeError, st)"
proof -
  from encode_stage_valid[OF assms(4)] obtain tn where
    tn: "encode_stage (t_values c) (t_nvalues c) t = Inr tn" by (auto simp: t_nvalues_def)
  from encode_stage_valid[OF assms(5)] obtain nn where
    nn: "encode_stage (n_values c) (n_nvalues c) n = Inr nn" by (auto simp: n_nvalues_def)
  from encode_stage_valid[OF assms(6)] obtain mn where
    mn: "encode_stage (m_values c) (m_nvalues c) m = Inr mn" by (auto simp: m_nvalues_def)
  show ?thesis
    by (simp add: survival_profile_selected[OF assms(1-3) tn nn mn] assms(7) closest_cluster_def
        closest_cluster_by_def)
qed

text \<open>
  C10. When one of the three inputs is \<open>None\<close> or the empty string the callback returns
  the empty text and leaves the state as it was, whatever the staging scheme and the
  state are: nothing is encoded and neither \<open>centroids\<close> nor \<open>profiles\<close> is read, so the
  call succeeds in the initial state too.
\<close>

theorem survival_profile_unselected_empty:
  assumes "\<not> (truthy_str t \<and> truthy_str n \<and> truthy_str m)"
  shows "survival_profile c st t n m = (Inr (Plaintext ''''), st) \<and>
         survival_profile c initial_state t n m = (Inr (Plaintext ''''), initial_state)"
  using assms by (simp only: survival_profile_unselected simp_thms)

theorem survival_profile_unselected_empty_witness:
  "survival_profile \<lparr>t_values = [], n_values = [], m_values = []\<rparr> initial_state
       (Some ''T1'') None (Some '''') = (Inr (Plaintext ''''), initial_state)"
proof -
  have h: "\<not> (truthy_str (Some ''T1'') \<and> truthy_str None \<and> truthy_str (Some ''''))"
    by (simp add: truthy_str_def)
  from survival_profile_unselected_empty[OF h] show ?thesis by blast
qed

text \<open>
  C4, as the code has it. With all three inputs selected and one of the labels equal to
  no entry of its value list, where equal is numpy's comparison, blind to trailing NUL
  characters, the subscript \<open>[0][0]\<close> of the empty position array raises \<open>IndexError\<close>.
  This holds in every state, also with \<open>centroids\<close> unset, where the matching would raise
  \<open>TypeError\<close>: the matching is not reached.
\<close>

theorem survival_profile_invalid_label:
  assumes "t \<noteq> []" "n \<noteq> []" "m \<noteq> []"
    "rstrip_nul t \<notin> rstrip_nul ` set (t_values c) \<or>
     rstrip_nul n \<notin> rstrip_nul ` set (n_values c) \<or>
     rstrip_nul m \<notin> rstrip_nul ` set (m_values c)"
  shows "survival_profile c st (Some t) (Some n) (Some m) = (Inl IndexError, st)"
  using assms by (rule survival_profile_invalid)

theorem survival_profile_invalid_label_witness:
  "survival_profile scenario_cdm initial_state (Some ''T1'') (Some ''N9'') (Some ''M0'')
     = (Inl IndexError, initial_state)"
proof -
  have h1: "''T1'' \<noteq> []" and h2: "''N9'' \<noteq> []" and h3: "''M0'' \<noteq> []" by simp_all
  have h4: "rstrip_nul ''T1'' \<notin> rstrip_nul ` set (t_values scenario_cdm) \<or>
     rstrip_nul ''N9'' \<notin> rstrip_nul ` set (n_values scenario_cdm) \<or>
     rstrip_nul ''M0'' \<notin> rstrip_nul ` set (m_values scenario_cdm)"
    by (simp add: scenario_cdm_def rstrip_nul_def)
  show ?thesis by (rule survival_profile_invalid_label[OF h1 h2 h3 h4])
qed

text \<open>
  C4 as stated fails: the label \<open>'T3'\<close> against the scheme \<open>['T1', 'T2']\<close> raises
  \<open>IndexError\<close>, not \<open>InvalidStageError\<close>.
\<close>

theorem survival_profile_T3_index_error:
  "fst (survival_profile scenario_cdm (scenario_state (replicate 25 1) (replicate 25 1))
          (Some ''T3'') (Some ''N0'') (Some ''M0'')) = Inl IndexError \<and>
   Inl IndexError \<noteq> (Inl InvalidStageError :: error + component)"
  by (simp add: survival_profile_def truthy_str_def scenario_cdm_def t_nvalues_def nvalues_def
      encode_stage_def first_item_def np_where_eq_def rstrip_nul_def)

text \<open>
  C7, as the code has it. While \<open>centroids\<close> is unset the callback returns the empty text
  when an input is unselected, raises \<open>IndexError\<close> when a selected label equals no entry
  of its value list (numpy's comparison, blind to trailing NUL characters), and otherwise
  raises \<open>TypeError\<close> at the iteration over \<open>None\<close>.
\<close>

theorem survival_profile_centroids_unset:
  assumes "centroids st = None"
  shows "survival_profile c st t n m =
     (if truthy_str t \<and> truthy_str n \<and> truthy_str m then
        if rstrip_nul (the t) \<in> rstrip_nul ` set (t_values c) \<and>
           rstrip_nul (the n) \<in> rstrip_nul ` set (n_values c) \<and>
           rstrip_nul (the m) \<in> rstrip_nul ` set (m_values c)
        then Inl TypeError else Inl IndexError
      else Inr (Plaintext ''''), st)"
proof (cases "truthy_str t \<and> truthy_str n \<and> truthy_str m")
  case False
  then show ?thesis by (simp add: survival_profile_unselected)
next
  case True
  then obtain t' n' m' where v: "t = Some t'" "n = Some n'" "m = Some m'"
    "t' \<noteq> []" "n' \<noteq> []" "m' \<noteq> []"
    by (auto simp: truthy_str_def split: option.splits)
  show ?thesis
  proof (cases "rstrip_nul t' \<in> rstrip_nul ` set (t_values c) \<and>
      rstrip_nul n' \<in> rstrip_nul ` set (n_values c) \<and>
      rstrip_nul m' \<in> rstrip_nul ` set (m_values c)")
    case True
    then show ?thesis using v assms
      by (simp add: survival_profile_valid_unset truthy_str_def)
  next
    case False
    then have "rstrip_nul t' \<notin> rstrip_nul ` set (t_values c) \<or>
      rstrip_nul n' \<notin> rstrip_nul ` set (n_values c) \<or>
      rstrip_nul m' \<notin> rstrip_nul ` set (m_values c)"
      by blast
    from survival_profile_invalid[OF v(4-6) this] False v show ?thesis
      by (simp add: truthy_str_def)
  qed
qed

theorem survival_profile_centroids_unset_witness:
  "centroids initial_state = None \<and>
   survival_profile scenario_cdm initial_state (Some ''T2'') (Some ''N1'') (Some ''M0'')
     = (Inl TypeError, initial_state)"
proof -
  have h: "centroids initial_state = None" by (simp add: initial_state_def)
  from survival_profile_centroids_unset[OF h, of scenario_cdm "Some ''T2''" "Some ''N1''" "Some ''M0''"]
  have "survival_profile scenario_cdm initial_state (Some ''T2'') (Some ''N1'') (Some ''M0'')
     = (Inl TypeError, initial_state)"
    by (simp add: truthy_str_def scenario_cdm_def rstrip_nul_def)
  with h show ?thesis by blast
qed

text \<open>
  C7 as stated fails: in the initial state a valid, fully selected stage raises
  \<open>TypeError\<close>, not \<open>NoResultsAvailableError\<close>.
\<close>

theorem survival_profile_initial_type_error:
  "fst (survival_profile scenario_cdm initial_state (Some ''T1'') (Some ''N0'') (Some ''M0''))
     = Inl TypeError \<and>
   Inl TypeError \<noteq> (Inl NoResultsAvailableError :: error + component)"
  by (simp add: survival_profile_def truthy_str_def scenario_encode closest_cluster_def
      closest_cluster_by_def initial_state_def)

text \<open>
  C5, as the code has it. The two lengths are never compared. Once the labels are encoded
  and the matching has returned \<open>idx\<close>, only \<open>profiles[idx]\<close> is read: an \<open>idx\<close> outside
  the profile set raises \<open>IndexError\<close>, and one inside it is rendered (or rejected for the
  length of that one profile) whatever the length of the profile set is.
\<close>

theorem survival_profile_profile_lookup:
  assumes "t \<noteq> []" "n \<noteq> []" "m \<noteq> []"
    "encode_stage (t_values c) (t_nvalues c) t = Inr tn"
    "encode_stage (n_values c) (n_nvalues c) n = Inr nn"
    "encode_stage (m_values c) (m_nvalues c) m = Inr mn"
    "closest_cluster [real tn, real nn, real mn] (centroids st) = Inr idx"
    "profiles st = Some ps"
  shows "survival_profile c st (Some t) (Some n) (Some m) =
     (if idx < length ps then
        if length (ps ! idx) = 25 then
          Inr (Div [H4 ''Survival profile for similar patients:'',
                    Graph (map (\<lambda>i. (30 * i, ps ! idx ! i)) [0..<25])])
        else Inl ValueError
      else Inl IndexError, st)"
  by (simp add: survival_profile_selected[OF assms(1-6)] assms(7,8) profile_frame_def
      list_get_def data_frame_days)

lemma scenario_distances:
  "euclidean [0, 0, 0] [0, 0, 0] = Inr 0"
  "euclidean [0, 0, 0] [1, 1, 1] = Inr (sqrt 3)"
  "euclidean [1, 1, 1] [0, 0, 0] = Inr (sqrt 3)"
  "euclidean [1, 1, 1] [1, 1, 1] = Inr 0"
  by (simp_all add: euclidean_def broadcast_sub_def norm2_def)

lemma scenario_closest:
  "closest_cluster [0, 0, 0] (Some [[0, 0, 0], [1, 1, 1]]) = Inr 0"
  "closest_cluster [1, 1, 1] (Some [[0, 0, 0], [1, 1, 1]]) = Inr 1"
  by (simp_all add: closest_cluster_def closest_cluster_by_def scenario_distances argmin_def)

theorem survival_profile_profile_lookup_witness:
  "''T2'' \<noteq> [] \<and> ''N1'' \<noteq> [] \<and> ''M1'' \<noteq> [] \<and>
   encode_stage (t_values scenario_cdm) (t_nvalues scenario_cdm) ''T2'' = Inr 1 \<and>
   encode_stage (n_values scenario_cdm) (n_nvalues scenario_cdm) ''N1'' = Inr 1 \<and>
   encode_stage (m_values scenario_cdm) (m_nvalues scenario_cdm) ''M1'' = Inr 1 \<and>
   closest_cluster [real 1, real 1, real 1]
     (centroids (initial_state\<lparr>centroids := Some [[0, 0, 0], [1, 1, 1]],
                               profiles := Some [replicate 25 1]\<rparr>)) = Inr 1 \<and>
   profiles (initial_state\<lparr>centroids := Some [[0, 0, 0], [1, 1, 1]],
                            profiles := Some [replicate 25 1]\<rparr>) = Some [replicate 25 1] \<and>
   survival_profile scenario_cdm
     (initial_state\<lparr>centroids := Some [[0, 0, 0], [1, 1, 1]], profiles := Some [replicate 25 1]\<rparr>)
     (Some ''T2'') (Some ''N1'') (Some ''M1'')
   = (Inl IndexError,
      initial_state\<lparr>centroids := Some [[0, 0, 0], [1, 1, 1]], profiles := Some [replicate 25 1]\<rparr>)"
proof -
  let ?st = "initial_state\<lparr>centroids := Some [[0, 0, 0], [1, 1, 1]],
                            profiles := Some [replicate 25 1]\<rparr>"
  have h1: "''T2'' \<noteq> []" and h2: "''N1'' \<noteq> []" and h3: "''M1'' \<noteq> []" by simp_all
  note h4 = scenario_encode(4) and h5 = scenario_encode(5) and h6 = scenario_encode(6)
  have h7: "closest_cluster [real 1, real 1, real 1] (centroids ?st) = Inr 1"
    by (simp add: scenario_closest)
  have h8: "profiles ?st = Some [replicate 25 1]" by simp
  from survival_profile_profile_lookup[OF h1 h2 h3 h4 h5 h6 h7 h8]
  have "survival_profile scenario_cdm ?st (Some ''T2'') (Some ''N1'') (Some ''M1'')
          = (Inl IndexError, ?st)" by simp
  with h1 h2 h3 h4 h5 h6 h7 h8 show ?thesis by blast
qed

text \<open>
  C5 as stated fails: with one centroid and two profiles the lengths differ, and the
  callback renders the first profile without raising anything.
\<close>

theorem survival_profile_length_mismatch_renders:
  "fst (survival_profile scenario_cdm
     (initial_state\<lparr>centroids := Some [[0, 0, 0]],
                     profiles := Some [replicate 25 1, replicate 25 0]\<rparr>)
     (Some ''T1'') (Some ''N0'') (Some ''M0''))
   = Inr (Div [H4 ''Survival profile for similar patients:'',
               Graph (zip (range_list 0 730 30) (replicate 25 1))])"
  by (simp add: survival_profile_def truthy_str_def scenario_encode closest_cluster_def
      closest_cluster_by_def scenario_distances argmin_def profile_frame_def list_get_def
      data_frame_def range_list_def)

subsection \<open>Retrieval\<close>

lemma retrieval_not_clicked:
  "n_clicks \<le> 0 \<Longrightarrow>
   get_similarity_analysis_results parse st n_clicks = (Inr (Plaintext ''''), st)"
  by (simp add: get_similarity_analysis_results_def)

text \<open>
  C6. The button was clicked, the client and the task exist, the service answers that
  the task is not complete, and \<open>centroids\<close> and \<open>profiles\<close> are unset. Then the callback
  returns the "still waiting" text, raises nothing, and leaves the state, so the two
  variables, as they were.
\<close>

theorem retrieval_not_ready:
  assumes "0 < n_clicks" "client st = Some cl" "task st = Some (Some tid)"
    "task_get cl tid = Inr ti" "complete ti = Some False"
    "centroids st = None" "profiles st = None"
  shows "get_similarity_analysis_results parse st n_clicks =
           (Inr (Div [Plaintext ''Still waiting for results, try again...'']), st) \<and>
         centroids (snd (get_similarity_analysis_results parse st n_clicks)) = None \<and>
         profiles (snd (get_similarity_analysis_results parse st n_clicks)) = None"
  using assms
  by (simp add: get_similarity_analysis_results_def results_output_def truthy_list_def)

theorem retrieval_not_ready_witness:
  "(0::int) < 1 \<and> client submitted_state = Some pending_client \<and>
   task submitted_state = Some (Some 7) \<and>
   task_get pending_client 7 = Inr \<lparr>complete = Some False, info_id = Some 7\<rparr> \<and>
   complete \<lparr>complete = Some False, info_id = Some 7\<rparr> = Some False \<and>
   centroids submitted_state = None \<and> profiles submitted_state = None \<and>
   get_similarity_analysis_results (\<lambda>s. Inl ValueError) submitted_state 1 =
     (Inr (Div [Plaintext ''Still waiting for results, try again...'']), submitted_state)"
proof -
  have h1: "(0::int) < 1" by simp
  have h2: "client submitted_state = Some pending_client"
    and h3: "task submitted_state = Some (Some 7)"
    and h6: "centroids submitted_state = None" and h7: "profiles submitted_state = None"
    by (simp_all add: submitted_state_def initial_state_def)
  have h4: "task_get pending_client 7 = Inr \<lparr>complete = Some False, info_id = Some 7\<rparr>"
    by (simp add: pending_client_def)
  have h5: "complete \<lparr>complete = Some False, info_id = Some 7\<rparr> = Some False" by simp
  from retrieval_not_ready[OF h1 h2 h3 h4 h5 h6 h7, of "\<lambda>s. Inl ValueError"]
    h1 h2 h3 h4 h5 h6 h7 show ?thesis by blast
qed

subsection \<open>The two-cluster scenario\<close>

text \<open>
  C9. Scheme \<open>t = ['T1', 'T2']\<close>, \<open>n = ['N0', 'N1']\<close>, \<open>m = ['M0', 'M1']\<close>, centroids
  \<open>[[0, 0, 0], [1, 1, 1]]\<close>, profiles \<open>[p0, p1]\<close> of 25 values each. The query
  (T1, N0, M0) encodes to (0, 0, 0), lies at distance 0 from centroid 0 and \<open>sqrt 3\<close>
  from centroid 1, matches cluster 0, and the chart shows \<open>p0\<close>; the query (T2, N1, M1)
  encodes to (1, 1, 1), matches cluster 1, and the chart shows \<open>p1\<close>.
\<close>

theorem scenario_two_clusters:
  assumes "length p0 = 25" "length p1 = 25"
  shows
    "encode_stage (t_values scenario_cdm) (t_nvalues scenario_cdm) ''T1'' = Inr 0 \<and>
     encode_stage (n_values scenario_cdm) (n_nvalues scenario_cdm) ''N0'' = Inr 0 \<and>
     encode_stage (m_values scenario_cdm) (m_nvalues scenario_cdm) ''M0'' = Inr 0 \<and>
     distances [0, 0, 0] [[0, 0, 0], [1, 1, 1]] = Inr [0, sqrt 3] \<and>
     closest_cluster [0, 0, 0] (centroids (scenario_state p0 p1)) = Inr 0 \<and>
     survival_profile scenario_cdm (scenario_state p0 p1) (Some ''T1'') (Some ''N0'') (Some ''M0'')
       = (Inr (Div [H4 ''Survival profile for similar patients:'',
                    Graph (zip (range_list 0 730 30) p0)]), scenario_state p0 p1) \<and>
     encode_stage (t_values scenario_cdm) (t_nvalues scenario_cdm) ''T2'' = Inr 1 \<and>
     encode_stage (n_values scenario_cdm) (n_nvalues scenario_cdm) ''N1'' = Inr 1 \<and>
     encode_stage (m_values scenario_cdm) (m_nvalues scenario_cdm) ''M1'' = Inr 1 \<and>
     closest_cluster [1, 1, 1] (centroids (scenario_state p0 p1)) = Inr 1 \<and>
     survival_profile scenario_cdm (scenario_state p0 p1) (Some ''T2'') (Some ''N1'') (Some ''M1'')
       = (Inr (Div [H4 ''Survival profile for similar patients:'',
                    Graph (zip (range_list 0 730 30) p1)]), scenario_state p0 p1)"
proof -
  have c: "centroids (scenario_state p0 p1) = Some [[0, 0, 0], [1, 1, 1]]"
    and p: "profiles (scenario_state p0 p1) = Some [p0, p1]"
    by (simp_all add: scenario_state_def)
  have d: "distances [0, 0, 0] [[0, 0, 0], [1, 1, 1]] = Inr [0, sqrt 3]"
    by (simp add: distances_def scenario_distances)
  have f0: "profile_frame (Some [p0, p1]) 0 = Inr (zip (range_list 0 730 30) p0)"
    using assms(1) by (simp add: profile_frame_def list_get_def data_frame_def range_list_def)
  have f1: "profile_frame (Some [p0, p1]) (Suc 0) = Inr (zip (range_list 0 730 30) p1)"
    using assms(2) by (simp add: profile_frame_def list_get_def data_frame_def range_list_def)
  have s0: "survival_profile scenario_cdm (scenario_state p0 p1)
              (Some ''T1'') (Some ''N0'') (Some ''M0'')
       = (Inr (Div [H4 ''Survival profile for similar patients:'',
                    Graph (zip (range_list 0 730 30) p0)]), scenario_state p0 p1)"
    by (simp add: survival_profile_def truthy_str_def scenario_encode c p scenario_closest f0)
  have s1: "survival_profile scenario_cdm (scenario_state p0 p1)
              (Some ''T2'') (Some ''N1'') (Some ''M1'')
       = (Inr (Div [H4 ''Survival profile for similar patients:'',
                    Graph (zip (range_list 0 730 30) p1)]), scenario_state p0 p1)"
    by (simp add: survival_profile_def truthy_str_def scenario_encode c p scenario_closest f1)
  show ?thesis
    by (simp only: scenario_encode d c scenario_closest s0 s1 simp_thms)
qed

theorem scenario_two_clusters_witness:
  "length (1 # 9 / 10 # replicate 23 (1 / 2 :: real)) = 25 \<and>
   length (8 / 10 # 5 / 10 # replicate 23 (1 / 4 :: real)) = 25 \<and>
   closest_cluster [0, 0, 0]
     (centroids (scenario_state (1 # 9 / 10 # replicate 23 (1 / 2))
                                (8 / 10 # 5 / 10 # replicate 23 (1 / 4)))) = Inr 0 \<and>
   fst (survival_profile scenario_cdm
      (scenario_state (1 # 9 / 10 # replicate 23 (1 / 2)) (8 / 10 # 5 / 10 # replicate 23 (1 / 4)))
      (Some ''T1'') (Some ''N0'') (Some ''M0''))
     = Inr (Div [H4 ''Survival profile for similar patients:'',
                 Graph (zip (range_list 0 730 30) (1 # 9 / 10 # replicate 23 (1 / 2)))]) \<and>
   closest_cluster [1, 1, 1]
     (centroids (scenario_state (1 # 9 / 10 # replicate 23 (1 / 2))
                                (8 / 10 # 5 / 10 # replicate 23 (1 / 4)))) = Inr 1 \<and>
   fst (survival_profile scenario_cdm
      (scenario_state (1 # 9 / 10 # replicate 23 (1 / 2)) (8 / 10 # 5 / 10 # replicate 23 (1 / 4)))
      (Some ''T2'') (Some ''N1'') (Some ''M1''))
     = Inr (Div [H4 ''Survival profile for similar patients:'',
                 Graph (zip (range_list 0 730 30) (8 / 10 # 5 / 10 # replicate 23 (1 / 4)))])"
proof -
  have h1: "length (1 # 9 / 10 # replicate 23 (1 / 2 :: real)) = 25" by simp
  have h2: "length (8 / 10 # 5 / 10 # replicate 23 (1 / 4 :: real)) = 25" by simp
  from scenario_two_clusters[OF h1 h2] h1 h2 show ?thesis by simp
qed

end
